theory Spec2Isabelle
  imports Complex_Main
begin

section \<open>JavaScript values and their rendering\<close>

text \<open>
  The argument mapping of a tool call is a JSON object. Every field that the five input
  schemas declare is a string or an array of strings, so the values modelled are the
  absent value, \<open>null\<close>, booleans, strings and (nested) arrays. JSON numbers and nested
  objects are outside the model: no schema declares one, and their rendering is floating
  point respectively dynamic dispatch. A call is taken to bring an argument mapping,
  possibly empty.
\<close>

datatype jsval = JUndefined | JNull | JBool bool | JStr string | JArr "jsval list"

type_synonym jsobj = "string \<rightharpoonup> jsval"

text \<open>Reading a property: \<open>obj.k\<close> is \<open>undefined\<close> when the key is absent.\<close>

definition field :: "jsobj \<Rightarrow> string \<Rightarrow> jsval" where
  "field obj k = (case obj k of None \<Rightarrow> JUndefined | Some v \<Rightarrow> v)"

text \<open>Truthiness, as \<open>||\<close> tests it: arrays are truthy even when empty.\<close>

fun truthy :: "jsval \<Rightarrow> bool" where
  "truthy JUndefined = False"
| "truthy JNull = False"
| "truthy (JBool b) = b"
| "truthy (JStr s) = (s \<noteq> [])"
| "truthy (JArr xs) = True"

fun join_str :: "string \<Rightarrow> string list \<Rightarrow> string" where
  "join_str sep [] = []"
| "join_str sep [x] = x"
| "join_str sep (x # y # ys) = x @ sep @ join_str sep (y # ys)"

text \<open>
  \<open>ToString\<close>, as a template literal applies it. An array renders as its elements joined
  by a comma, where \<open>undefined\<close> and \<open>null\<close> elements render as the empty string.
\<close>

fun to_string :: "jsval \<Rightarrow> string" where
  "to_string JUndefined = ''undefined''"
| "to_string JNull = ''null''"
| "to_string (JBool b) = (if b then ''true'' else ''false'')"
| "to_string (JStr s) = s"
| "to_string (JArr xs) =
     join_str '','' (map (\<lambda>x. case x of JUndefined \<Rightarrow> [] | JNull \<Rightarrow> [] | _ \<Rightarrow> to_string x) xs)"

text \<open>\<open>Array.prototype.join(sep)\<close>.\<close>

definition array_join :: "string \<Rightarrow> jsval list \<Rightarrow> string" where
  "array_join sep xs =
     join_str sep (map (\<lambda>x. case x of JUndefined \<Rightarrow> [] | JNull \<Rightarrow> [] | _ \<Rightarrow> to_string x) xs)"

text \<open>The template fragment \<open>${v || 'fallback'}\<close>.\<close>

definition or_else :: "jsval \<Rightarrow> string \<Rightarrow> string" where
  "or_else v fallback = (if truthy v then to_string v else fallback)"

subsection \<open>Integers in decimal\<close>

text \<open>
  \<open>Date.now()\<close> is an integral number of milliseconds of magnitude below \<open>10^21\<close>, and the
  day count is an integer too: a template literal renders both in plain decimal.
\<close>

definition digit_char :: "nat \<Rightarrow> char" where
  "digit_char d = ''0123456789'' ! d"

fun show_nat :: "nat \<Rightarrow> string" where
  "show_nat n =
     (if n < 10 then [digit_char n] else show_nat (n div 10) @ [digit_char (n mod 10)])"

declare show_nat.simps [simp del]

definition show_int :: "int \<Rightarrow> string" where
  "show_int i = (if i < 0 then ''-'' @ show_nat (nat (- i)) else show_nat (nat i))"

section \<open>Errors and the runtime\<close>

datatype error_code = MethodNotFound | InternalError

text \<open>
  What the code can throw: an \<open>McpError\<close> built from a code and a message argument, and the
  engine's \<open>TypeError\<close> for calling an expression that is not a function (the expression
  is recorded).
\<close>

datatype js_error = McpError error_code string | NotAFunction string

text \<open>
  The parts of the platform the handlers call but the repository does not define:
  \<open>Date.parse\<close> (\<open>None\<close> is \<open>NaN\<close>, the invalid date), \<open>Date.prototype.toISOString\<close> and the
  \<open>message\<close> property that the protocol library respectively the engine give an error
  object. They are parameters of the model.
\<close>

record runtime =
  date_parse :: "string \<Rightarrow> int option"
  toISOString :: "int \<Rightarrow> string"
  message_of :: "js_error \<Rightarrow> string"

text \<open>
  The wall clock of one call: \<open>clk i\<close> is the \<open>i\<close>-th reading (\<open>Date.now()\<close> or
  \<open>new Date()\<close>) that the call makes, in milliseconds since the epoch.
\<close>

type_synonym clock = "nat \<Rightarrow> int"

text \<open>The time value of \<open>new Date(v)\<close>; \<open>None\<close> is the invalid date.\<close>

fun date_value :: "runtime \<Rightarrow> jsval \<Rightarrow> int option" where
  "date_value rt JUndefined = None"
| "date_value rt JNull = Some 0"
| "date_value rt (JBool b) = Some (if b then 1 else 0)"
| "date_value rt (JStr s) = date_parse rt s"
| "date_value rt (JArr xs) = date_parse rt (to_string (JArr xs))"

section \<open>The tool server\<close>

text \<open>A result is \<open>{ content: [ { type: 'text', text: ... } ] }\<close>.\<close>

datatype content = Text string

type_synonym tool_result = "content list"

definition caseId :: string where
  "caseId = ''1FDV-23-0001009''"

subsection \<open>Static tables\<close>

definition findings_table :: "(string \<times> string list) list" where
  "findings_table =
    [(''bias_detection'',
        [''Multiple instances of procedural bias identified'',
         ''Pattern of discriminatory treatment documented'',
         ''Due process violations found in court proceedings'']),
     (''timeline_analysis'',
        [''Critical timeline gaps identified in case progression'',
         ''Delay tactics used to Casey's disadvantage'',
         ''Child's best interests not prioritized in scheduling'']),
     (''precedent_research'',
        [''Similar cases show pattern of judicial overreach'',
         ''Federal civil rights precedents support Casey's position'',
         ''Child welfare standards not being properly applied'']),
     (''civil_rights_review'',
        [''Constitutional violations present in case handling'',
         ''Equal protection under law compromised'',
         ''Parental rights unlawfully restricted''])]"

text \<open>
  \<open>findings\<close> is an object literal, so \<open>findings[type]\<close> also finds the members it inherits
  from \<open>Object.prototype\<close>: functions, and the prototype itself under \<open>__proto__\<close>.
  All are truthy and none is an array.
\<close>

definition object_prototype_members :: "string list" where
  "object_prototype_members =
    [''constructor'', ''__defineGetter__'', ''__defineSetter__'', ''hasOwnProperty'',
     ''__lookupGetter__'', ''__lookupSetter__'', ''isPrototypeOf'', ''propertyIsEnumerable'',
     ''toString'', ''valueOf'', ''__proto__'', ''toLocaleString'']"

datatype findings_value = StringArray "string list" | Inherited string

definition generateAnalysisFindings :: "jsval \<Rightarrow> jsval \<Rightarrow> findings_value" where
  "generateAnalysisFindings type focus =
     (let key = to_string type in
      case map_of findings_table key of
        Some fs \<Rightarrow> StringArray fs
      | None \<Rightarrow>
          if key \<in> set object_prototype_members then Inherited key
          else StringArray [''Analysis completed - detailed findings available''])"

definition generateRecommendations :: "jsval \<Rightarrow> jsval \<Rightarrow> string list" where
  "generateRecommendations type focus =
    [''File motion for judicial recusal based on documented bias'',
     ''Request emergency hearing for child welfare concerns'',
     ''Gather additional evidence of procedural violations'',
     ''Consider federal civil rights lawsuit if state remedies fail'']"

definition generateNextSteps :: "jsval \<Rightarrow> jsval \<Rightarrow> string list" where
  "generateNextSteps type focus =
    [''Prepare comprehensive bias documentation package'',
     ''Schedule emergency consultation with civil rights attorney'',
     ''Document all future interactions with court system'',
     ''Prioritize Kekoa's immediate safety and well-being'']"

subsection \<open>Handlers\<close>

definition analyzeLegalCase :: "runtime \<Rightarrow> clock \<Rightarrow> jsobj \<Rightarrow> js_error + tool_result" where
  "analyzeLegalCase rt clk args =
     (let case_id = (case field args ''case_id'' of JUndefined \<Rightarrow> JStr caseId | v \<Rightarrow> v);
          analysis_type = field args ''analysis_type'';
          focus_area = field args ''focus_area'';
          timestamp = toISOString rt (clk 0);
          findings = generateAnalysisFindings analysis_type focus_area;
          recommendations = generateRecommendations analysis_type focus_area;
          next_steps = generateNextSteps analysis_type focus_area
      in case findings of
           Inherited k \<Rightarrow> Inl (NotAFunction ''analysis.findings.join'')
         | StringArray fs \<Rightarrow>
             Inr [Text (''Legal Case Analysis Complete for '' @ to_string case_id @ ''\<newline>\<newline>'' @
                        ''Analysis Type: '' @ to_string analysis_type @ ''\<newline>'' @
                        ''Focus Area: '' @ or_else focus_area ''General'' @ ''\<newline>\<newline>'' @
                        ''Key Findings:\<newline>'' @ join_str ''\<newline>'' fs @ ''\<newline>\<newline>'' @
                        ''Recommendations:\<newline>'' @ join_str ''\<newline>'' recommendations @ ''\<newline>\<newline>'' @
                        ''Next Steps:\<newline>'' @ join_str ''\<newline>'' next_steps)])"

text \<open>
  The object literals spread \<open>...args\<close> after \<open>id\<close> and \<open>case_id\<close> and before the remaining
  keys: a later key replaces an earlier one.
\<close>

definition trackEvidence :: "runtime \<Rightarrow> clock \<Rightarrow> jsobj \<Rightarrow> js_error + tool_result" where
  "trackEvidence rt clk args =
     (let evidence =
            ([''id'' \<mapsto> JStr (''evidence_'' @ show_int (clk 0)),
              ''case_id'' \<mapsto> JStr caseId] ++ args)
            (''timestamp'' \<mapsto> JStr (toISOString rt (clk 1)),
             ''chain_of_custody'' \<mapsto>
                JArr [JStr (''Created by Casey Legal MCP Server at '' @ toISOString rt (clk 2))])
      in Inr [Text (''Evidence Tracked Successfully\<newline>\<newline>'' @
                    ''Evidence ID: '' @ to_string (field evidence ''id'') @ ''\<newline>'' @
                    ''Type: '' @ to_string (field evidence ''evidence_type'') @ ''\<newline>'' @
                    ''Description: '' @ to_string (field evidence ''description'') @ ''\<newline>'' @
                    ''Relevance: '' @ or_else (field evidence ''relevance'') ''Not specified'' @ ''\<newline>'' @
                    ''Date Collected: '' @ or_else (field evidence ''date_collected'') ''Not specified'' @
                    ''\<newline>\<newline>'' @
                    ''This evidence has been added to the Case '' @ caseId @ '' evidence database.'')])"

text \<open>
  \<open>Math.ceil(x / 86400000)\<close> for an integral \<open>x\<close>. Both time values are integers of
  magnitude at most \<open>8.64 * 10^15\<close>, so their difference is exact in double precision, and
  a quotient below \<open>2^27\<close> days that is not an integer stays further from every integer
  than rounding can move it: the ceiling is the mathematical one.
\<close>

definition ceil_div :: "int \<Rightarrow> int \<Rightarrow> int" where
  "ceil_div x d = - ((- x) div d)"

text \<open>The day count; \<open>None\<close> is \<open>NaN\<close>, which the invalid date propagates.\<close>

definition daysUntil :: "runtime \<Rightarrow> clock \<Rightarrow> jsobj \<Rightarrow> int option" where
  "daysUntil rt clk args =
     (case date_value rt (field args ''date'') of
        None \<Rightarrow> None
      | Some t \<Rightarrow> Some (ceil_div (t - clk 2) (1000 * 60 * 60 * 24)))"

text \<open>Every comparison with \<open>NaN\<close> is false.\<close>

definition urgencyLevel :: "int option \<Rightarrow> string" where
  "urgencyLevel days =
     (if (case days of None \<Rightarrow> False | Some d \<Rightarrow> d \<le> 7) then ''URGENT''
      else if (case days of None \<Rightarrow> False | Some d \<Rightarrow> d \<le> 30) then ''IMPORTANT''
      else ''SCHEDULED'')"

definition show_days :: "int option \<Rightarrow> string" where
  "show_days days = (case days of None \<Rightarrow> ''NaN'' | Some d \<Rightarrow> show_int d)"

definition monitorDeadlines :: "runtime \<Rightarrow> clock \<Rightarrow> jsobj \<Rightarrow> js_error + tool_result" where
  "monitorDeadlines rt clk args =
     (let deadline =
            ([''id'' \<mapsto> JStr (''deadline_'' @ show_int (clk 0)),
              ''case_id'' \<mapsto> JStr caseId] ++ args)
            (''created'' \<mapsto> JStr (toISOString rt (clk 1)),
             ''status'' \<mapsto> JStr ''active'');
          days = daysUntil rt clk args;
          urgency = urgencyLevel days
      in Inr [Text (''Deadline Monitoring Activated\<newline>\<newline>'' @
                    ''Deadline ID: '' @ to_string (field deadline ''id'') @ ''\<newline>'' @
                    ''Type: '' @ to_string (field deadline ''deadline_type'') @ ''\<newline>'' @
                    ''Date: '' @ to_string (field deadline ''date'') @ ''\<newline>'' @
                    ''Days Until: '' @ show_days days @ ''\<newline>'' @
                    ''Urgency: '' @ urgency @ ''\<newline>'' @
                    ''Priority: '' @ to_string (field deadline ''priority'') @ ''\<newline>'' @
                    ''Description: '' @ to_string (field deadline ''description'') @ ''\<newline>\<newline>'' @
                    ''Automatic alerts will be sent for this deadline. Fighting for Kekoa's future!'')])"

text \<open>
  \<open>incident.witnesses?.join(', ')\<close>: \<open>undefined\<close> for an absent or \<open>null\<close> value, the join for
  an array, and a \<open>TypeError\<close> for any other value, which has no \<open>join\<close> method.
\<close>

fun witnesses_join :: "jsval \<Rightarrow> js_error + jsval" where
  "witnesses_join JUndefined = Inr JUndefined"
| "witnesses_join JNull = Inr JUndefined"
| "witnesses_join (JArr xs) = Inr (JStr (array_join '', '' xs))"
| "witnesses_join v = Inl (NotAFunction ''incident.witnesses?.join'')"

definition documentJudicialBias :: "runtime \<Rightarrow> clock \<Rightarrow> jsobj \<Rightarrow> js_error + tool_result" where
  "documentJudicialBias rt clk args =
     (let incident =
            ([''id'' \<mapsto> JStr (''bias_incident_'' @ show_int (clk 0)),
              ''case_id'' \<mapsto> JStr caseId] ++ args)
            (''documented'' \<mapsto> JStr (toISOString rt (clk 1)),
             ''status'' \<mapsto> JStr ''documented'')
      in case witnesses_join (field incident ''witnesses'') of
           Inl e \<Rightarrow> Inl e
         | Inr joined \<Rightarrow>
             Inr [Text (''Judicial Bias Incident Documented\<newline>\<newline>'' @
                        ''Incident ID: '' @ to_string (field incident ''id'') @ ''\<newline>'' @
                        ''Date: '' @ to_string (field incident ''incident_date'') @ ''\<newline>'' @
                        ''Type: '' @ to_string (field incident ''bias_type'') @ ''\<newline>'' @
                        ''Impact: '' @ to_string (field incident ''impact'') @ ''\<newline>'' @
                        ''Description: '' @ to_string (field incident ''description'') @ ''\<newline>'' @
                        ''Witnesses: '' @ or_else joined ''None specified'' @ ''\<newline>\<newline>'' @
                        ''This incident has been added to the judicial bias documentation for Case '' @
                        caseId @ ''. '' @
                        ''Justice for Kekoa - every instance of bias is documented and will be used to protect his future.'')])"

definition assessChildWelfare :: "runtime \<Rightarrow> clock \<Rightarrow> jsobj \<Rightarrow> js_error + tool_result" where
  "assessChildWelfare rt clk args =
     (let assessment =
            ([''id'' \<mapsto> JStr (''welfare_'' @ show_int (clk 0)),
              ''case_id'' \<mapsto> JStr caseId,
              ''child'' \<mapsto> JStr ''Kekoa''] ++ args)
            (''assessed_by'' \<mapsto> JStr ''Casey Legal MCP Server'',
             ''timestamp'' \<mapsto> JStr (toISOString rt (clk 1)))
      in Inr [Text (''Child Welfare Assessment Completed\<newline>\<newline>'' @
                    ''Assessment ID: '' @ to_string (field assessment ''id'') @ ''\<newline>'' @
                    ''Child: Kekoa\<newline>'' @
                    ''Date: '' @ to_string (field assessment ''assessment_date'') @ ''\<newline>'' @
                    ''Concern Type: '' @ to_string (field assessment ''concern_type'') @ ''\<newline>'' @
                    ''Severity: '' @ to_string (field assessment ''severity'') @ ''\<newline>'' @
                    ''Evidence: '' @ or_else (field assessment ''evidence'') ''To be gathered'' @ ''\<newline>'' @
                    ''Recommended Action: '' @
                    or_else (field assessment ''recommended_action'') ''Under review'' @ ''\<newline>\<newline>'' @
                    ''Kekoa's welfare is our top priority. This assessment will be used to ensure his safety and well-being.'')])"

subsection \<open>Dispatch\<close>

text \<open>The \<open>switch\<close> inside the \<open>try\<close> block of the call handler.\<close>

definition dispatch :: "runtime \<Rightarrow> clock \<Rightarrow> string \<Rightarrow> jsobj \<Rightarrow> js_error + tool_result" where
  "dispatch rt clk name args =
     (if name = ''analyze_legal_case'' then analyzeLegalCase rt clk args
      else if name = ''track_evidence'' then trackEvidence rt clk args
      else if name = ''monitor_deadlines'' then monitorDeadlines rt clk args
      else if name = ''document_judicial_bias'' then documentJudicialBias rt clk args
      else if name = ''child_welfare_assessment'' then assessChildWelfare rt clk args
      else Inl (McpError MethodNotFound (''Unknown tool: '' @ name)))"

text \<open>
  The call handler: whatever the \<open>try\<close> block throws, the \<open>throw\<close> of its own \<open>default\<close>
  branch included, the \<open>catch\<close> block replaces by an internal error.
\<close>

definition invoke :: "runtime \<Rightarrow> clock \<Rightarrow> string \<Rightarrow> jsobj \<Rightarrow> js_error + tool_result" where
  "invoke rt clk name args =
     (case dispatch rt clk name args of
        Inr result \<Rightarrow> Inr result
      | Inl error \<Rightarrow>
          Inl (McpError InternalError
                 (''Error executing '' @ name @ '': '' @ message_of rt error)))"

subsection \<open>The registry\<close>

text \<open>
  A property of an input schema: a plain string, a string with a default, a string with
  enumerated values, or an array of strings; each carries its description.
\<close>

datatype property_schema =
    StringProperty string
  | DefaultedString string string
  | EnumProperty "string list" string
  | StringArrayProperty string

record input_schema =
  schema_type :: string
  properties :: "(string \<times> property_schema) list"
  required :: "string list"

record tool =
  tool_name :: string
  tool_description :: string
  inputSchema :: input_schema

text \<open>The list handler returns the same five descriptors on every call.\<close>

definition list_tools :: "tool list" where
  "list_tools =
    [\<lparr>tool_name = ''analyze_legal_case'',
      tool_description =
        ''Analyze Case 1FDV-23-0001009 for judicial bias and civil rights violations'',
      inputSchema = \<lparr>schema_type = ''object'',
        properties =
          [(''case_id'', DefaultedString ''Federal case identifier'' ''1FDV-23-0001009''),
           (''analysis_type'',
              EnumProperty [''bias_detection'', ''timeline_analysis'', ''precedent_research'',
                            ''civil_rights_review'']
                ''Type of legal analysis to perform''),
           (''focus_area'',
              EnumProperty [''child_welfare'', ''parental_rights'', ''due_process'',
                            ''judicial_conduct'']
                ''Specific area to focus analysis on'')],
        required = [''analysis_type'']\<rparr>\<rparr>,
     \<lparr>tool_name = ''track_evidence'',
      tool_description = ''Track and organize evidence for Case 1FDV-23-0001009'',
      inputSchema = \<lparr>schema_type = ''object'',
        properties =
          [(''evidence_type'',
              EnumProperty [''document'', ''audio_recording'', ''photo'', ''witness_statement'',
                            ''court_transcript'']
                ''Type of evidence to track''),
           (''description'', StringProperty ''Description of the evidence''),
           (''date_collected'', StringProperty ''Date evidence was collected (ISO format)''),
           (''relevance'',
              EnumProperty [''critical'', ''high'', ''medium'', ''low'']
                ''Relevance level to the case'')],
        required = [''evidence_type'', ''description'']\<rparr>\<rparr>,
     \<lparr>tool_name = ''monitor_deadlines'',
      tool_description =
        ''Monitor court deadlines and important dates for Case 1FDV-23-0001009'',
      inputSchema = \<lparr>schema_type = ''object'',
        properties =
          [(''deadline_type'',
              EnumProperty [''filing_deadline'', ''hearing_date'', ''discovery_deadline'',
                            ''appeal_deadline'']
                ''Type of legal deadline''),
           (''date'', StringProperty ''Deadline date (ISO format)''),
           (''description'', StringProperty ''Description of what is due''),
           (''priority'',
              EnumProperty [''critical'', ''high'', ''normal''] ''Priority level of the deadline'')],
        required = [''deadline_type'', ''date'', ''description'']\<rparr>\<rparr>,
     \<lparr>tool_name = ''document_judicial_bias'',
      tool_description = ''Document instances of judicial bias in Case 1FDV-23-0001009'',
      inputSchema = \<lparr>schema_type = ''object'',
        properties =
          [(''incident_date'', StringProperty ''Date of bias incident (ISO format)''),
           (''bias_type'',
              EnumProperty [''gender_bias'', ''procedural_bias'', ''evidence_suppression'',
                            ''due_process_violation'']
                ''Type of bias observed''),
           (''description'', StringProperty ''Detailed description of the bias incident''),
           (''impact'',
              EnumProperty [''severe'', ''moderate'', ''minor'']
                ''Impact on case and child welfare''),
           (''witnesses'', StringArrayProperty ''Names of witnesses to the bias'')],
        required = [''incident_date'', ''bias_type'', ''description'']\<rparr>\<rparr>,
     \<lparr>tool_name = ''child_welfare_assessment'',
      tool_description = ''Assess Kekoa's welfare and document concerns'',
      inputSchema = \<lparr>schema_type = ''object'',
        properties =
          [(''assessment_date'', StringProperty ''Date of welfare assessment''),
           (''concern_type'',
              EnumProperty [''neglect'', ''emotional_harm'', ''educational_disruption'',
                            ''medical_neglect'']
                ''Type of welfare concern''),
           (''severity'',
              EnumProperty [''critical'', ''high'', ''moderate'', ''minor'']
                ''Severity of the concern''),
           (''evidence'', StringProperty ''Evidence supporting the welfare concern''),
           (''recommended_action'',
              StringProperty ''Recommended action to address the concern'')],
        required = [''assessment_date'', ''concern_type'', ''severity'']\<rparr>\<rparr>]"

text \<open>
  The descriptors that the list handler returns under a given name, each reduced to its
  set of required fields.
\<close>

definition required_sets :: "string \<Rightarrow> string set list" where
  "required_sets n =
     map (\<lambda>t. set (required (inputSchema t))) (filter (\<lambda>t. tool_name t = n) list_tools)"

section \<open>A sample platform\<close>

text \<open>
  For evaluating calls on concrete inputs: a platform whose \<open>Date.parse\<close> knows four
  instants (every other string is an invalid date), whose errors carry the messages of
  the protocol library and of the engine, and a clock that stands at
  \<open>2030-01-01T00:00:00.000Z\<close> during a call.
\<close>

definition sample_message :: "js_error \<Rightarrow> string" where
  "sample_message e =
     (case e of
        McpError c m \<Rightarrow>
          ''MCP error '' @
          (case c of MethodNotFound \<Rightarrow> ''-32601'' | InternalError \<Rightarrow> ''-32603'') @ '': '' @ m
      | NotAFunction x \<Rightarrow> x @ '' is not a function'')"

definition sample_runtime :: runtime where
  "sample_runtime =
     \<lparr>date_parse = map_of
        [(''2030-01-08T00:00:00.000Z'', 1894060800000),
         (''2030-01-09T00:00:00.000Z'', 1894147200000),
         (''2030-01-31T00:00:00.000Z'', 1896048000000),
         (''2030-02-01T00:00:00.000Z'', 1896134400000)],
      toISOString = (\<lambda>t. ''2030-01-01T00:00:00.000Z''),
      message_of = sample_message\<rparr>"

definition new_year :: clock where
  "new_year = (\<lambda>i. 1893456000000)"

text \<open>
  Two more clocks: one standing a millisecond earlier, and one that reads the same
  millisecond as \<open>new_year\<close> first and the next one afterwards.
\<close>

definition last_millisecond :: clock where
  "last_millisecond = (\<lambda>i. 1893455999999)"

definition new_year_ticking :: clock where
  "new_year_ticking = (\<lambda>i. if i = 0 then 1893456000000 else 1893456000001)"

section \<open>Properties\<close>

subsection \<open>Reading the merged objects\<close>

lemma field_upd: "field (m(k \<mapsto> v)) k' = (if k' = k then v else field m k')"
  by (simp add: field_def)

lemma field_spread_absent: "m k = None \<Longrightarrow> field (m ++ args) k = field args k"
  by (simp add: field_def map_add_def split: option.splits)

lemma field_spread_present:
  "m k = Some d \<Longrightarrow> field (m ++ args) k = (case args k of None \<Rightarrow> d | Some v \<Rightarrow> v)"
  by (simp add: field_def map_add_def split: option.splits)

lemma field_empty: "field Map.empty k = JUndefined"
  by (simp add: field_def)

lemmas field_simps = field_upd field_spread_absent field_spread_present

text \<open>The id that a report shows: the generated one unless the arguments bring their own.\<close>

lemma trackEvidence_text:
  "trackEvidence rt clk args =
     Inr [Text (''Evidence Tracked Successfully\<newline>\<newline>'' @
                ''Evidence ID: '' @
                to_string (case args ''id'' of None \<Rightarrow> JStr (''evidence_'' @ show_int (clk 0)) | Some v \<Rightarrow> v) @
                ''\<newline>'' @
                ''Type: '' @ to_string (field args ''evidence_type'') @ ''\<newline>'' @
                ''Description: '' @ to_string (field args ''description'') @ ''\<newline>'' @
                ''Relevance: '' @ or_else (field args ''relevance'') ''Not specified'' @ ''\<newline>'' @
                ''Date Collected: '' @ or_else (field args ''date_collected'') ''Not specified'' @
                ''\<newline>\<newline>'' @
                ''This evidence has been added to the Case 1FDV-23-0001009 evidence database.'')]"
  by (simp add: trackEvidence_def Let_def field_simps caseId_def split: option.splits)

lemma monitorDeadlines_text:
  "monitorDeadlines rt clk args =
     Inr [Text (''Deadline Monitoring Activated\<newline>\<newline>'' @
                ''Deadline ID: '' @
                to_string (case args ''id'' of None \<Rightarrow> JStr (''deadline_'' @ show_int (clk 0)) | Some v \<Rightarrow> v) @
                ''\<newline>'' @
                ''Type: '' @ to_string (field args ''deadline_type'') @ ''\<newline>'' @
                ''Date: '' @ to_string (field args ''date'') @ ''\<newline>'' @
                ''Days Until: '' @ show_days (daysUntil rt clk args) @ ''\<newline>'' @
                ''Urgency: '' @ urgencyLevel (daysUntil rt clk args) @ ''\<newline>'' @
                ''Priority: '' @ to_string (field args ''priority'') @ ''\<newline>'' @
                ''Description: '' @ to_string (field args ''description'') @ ''\<newline>\<newline>'' @
                ''Automatic alerts will be sent for this deadline. Fighting for Kekoa's future!'')]"
  by (simp add: monitorDeadlines_def Let_def field_simps split: option.splits)

lemma documentJudicialBias_text:
  "documentJudicialBias rt clk args =
     (case witnesses_join (field args ''witnesses'') of
        Inl e \<Rightarrow> Inl e
      | Inr joined \<Rightarrow>
     Inr [Text (''Judicial Bias Incident Documented\<newline>\<newline>'' @
                ''Incident ID: '' @
                to_string (case args ''id'' of None \<Rightarrow> JStr (''bias_incident_'' @ show_int (clk 0)) | Some v \<Rightarrow> v) @
                ''\<newline>'' @
                ''Date: '' @ to_string (field args ''incident_date'') @ ''\<newline>'' @
                ''Type: '' @ to_string (field args ''bias_type'') @ ''\<newline>'' @
                ''Impact: '' @ to_string (field args ''impact'') @ ''\<newline>'' @
                ''Description: '' @ to_string (field args ''description'') @ ''\<newline>'' @
                ''Witnesses: '' @ or_else joined ''None specified'' @ ''\<newline>\<newline>'' @
                ''This incident has been added to the judicial bias documentation for Case 1FDV-23-0001009. Justice for Kekoa - every instance of bias is documented and will be used to protect his future.'')])"
  by (simp add: documentJudicialBias_def Let_def field_simps caseId_def split: sum.splits option.splits)

lemma assessChildWelfare_text:
  "assessChildWelfare rt clk args =
     Inr [Text (''Child Welfare Assessment Completed\<newline>\<newline>'' @
                ''Assessment ID: '' @
                to_string (case args ''id'' of None \<Rightarrow> JStr (''welfare_'' @ show_int (clk 0)) | Some v \<Rightarrow> v) @
                ''\<newline>'' @
                ''Child: Kekoa\<newline>'' @
                ''Date: '' @ to_string (field args ''assessment_date'') @ ''\<newline>'' @
                ''Concern Type: '' @ to_string (field args ''concern_type'') @ ''\<newline>'' @
                ''Severity: '' @ to_string (field args ''severity'') @ ''\<newline>'' @
                ''Evidence: '' @ or_else (field args ''evidence'') ''To be gathered'' @ ''\<newline>'' @
                ''Recommended Action: '' @
                or_else (field args ''recommended_action'') ''Under review'' @ ''\<newline>\<newline>'' @
                ''Kekoa's welfare is our top priority. This assessment will be used to ensure his safety and well-being.'')]"
  by (simp add: assessChildWelfare_def Let_def field_simps split: option.splits)

lemma dispatch_simps:
  "dispatch rt clk ''analyze_legal_case'' args = analyzeLegalCase rt clk args"
  "dispatch rt clk ''track_evidence'' args = trackEvidence rt clk args"
  "dispatch rt clk ''monitor_deadlines'' args = monitorDeadlines rt clk args"
  "dispatch rt clk ''document_judicial_bias'' args = documentJudicialBias rt clk args"
  "dispatch rt clk ''child_welfare_assessment'' args = assessChildWelfare rt clk args"
  by (simp_all add: dispatch_def)

lemma invoke_total_handlers:
  "invoke rt clk ''track_evidence'' args = trackEvidence rt clk args"
  "invoke rt clk ''monitor_deadlines'' args = monitorDeadlines rt clk args"
  "invoke rt clk ''child_welfare_assessment'' args = assessChildWelfare rt clk args"
  by (simp_all add: invoke_def dispatch_simps trackEvidence_text monitorDeadlines_text
        assessChildWelfare_text)

subsection \<open>Errors are wrapped\<close>

lemma invoke_wraps:
  "invoke rt clk name args = Inl e \<longleftrightarrow>
     (\<exists>e'. dispatch rt clk name args = Inl e' \<and>
           e = McpError InternalError (''Error executing '' @ name @ '': '' @ message_of rt e'))"
  by (auto simp: invoke_def split: sum.splits)

subsection \<open>Decimal rendering is injective\<close>

lemma digit_char_table:
  "\<forall>n \<in> set [0..<10]. of_char (digit_char n) = 48 + n \<and> digit_char n \<noteq> CHR ''-''"
  by code_simp

lemma digit_char_val: "n < 10 \<Longrightarrow> of_char (digit_char n) = 48 + n"
  using digit_char_table by simp

lemma digit_char_not_minus: "d < 10 \<Longrightarrow> digit_char d \<noteq> CHR ''-''"
  using digit_char_table by simp

lemma digit_char_inj:
  assumes "a < 10" and "b < 10" and "digit_char a = digit_char b"
  shows "a = b"
proof -
  have "48 + a = (of_char (digit_char a) :: nat)"
    using assms(1) by (simp only: digit_char_val)
  also have "\<dots> = of_char (digit_char b)"
    by (simp only: assms(3))
  also have "\<dots> = 48 + b"
    using assms(2) by (simp only: digit_char_val)
  finally show ?thesis
    by simp
qed

lemma show_nat_not_Nil: "show_nat n \<noteq> []"
  by (subst show_nat.simps) simp

lemma show_nat_digits: "CHR ''-'' \<notin> set (show_nat n)"
proof (induction n rule: show_nat.induct)
  case (1 n)
  show ?case
  proof (cases "n < 10")
    case True
    then show ?thesis
      using digit_char_not_minus [of n] by (subst show_nat.simps) auto
  next
    case False
    have "n mod 10 < 10" by simp
    then have "digit_char (n mod 10) \<noteq> CHR ''-''" by (rule digit_char_not_minus)
    with False 1 show ?thesis
      by (subst show_nat.simps) auto
  qed
qed

lemma show_nat_inj: "show_nat n = show_nat m \<Longrightarrow> n = m"
proof (induction n arbitrary: m rule: show_nat.induct)
  case (1 n)
  show ?case
  proof (cases "n < 10")
    case n10: True
    show ?thesis
    proof (cases "m < 10")
      case True
      with n10 1(2) have "digit_char n = digit_char m"
        by (simp add: show_nat.simps [of n] show_nat.simps [of m])
      with n10 True show ?thesis by (rule digit_char_inj)
    next
      case False
      with n10 1(2) have "[digit_char n] = show_nat (m div 10) @ [digit_char (m mod 10)]"
        by (simp add: show_nat.simps [of n] show_nat.simps [of m])
      then show ?thesis using show_nat_not_Nil [of "m div 10"] by (cases "show_nat (m div 10)") auto
    qed
  next
    case n10: False
    show ?thesis
    proof (cases "m < 10")
      case True
      with n10 1(2) have "show_nat (n div 10) @ [digit_char (n mod 10)] = [digit_char m]"
        by (simp add: show_nat.simps [of n] show_nat.simps [of m])
      then show ?thesis using show_nat_not_Nil [of "n div 10"] by (cases "show_nat (n div 10)") auto
    next
      case False
      with n10 1(2) have eq: "show_nat (n div 10) = show_nat (m div 10)"
        and d: "digit_char (n mod 10) = digit_char (m mod 10)"
        by (simp_all add: show_nat.simps [of n] show_nat.simps [of m])
      from 1(1) [OF n10 eq] have "n div 10 = m div 10" .
      moreover have "n mod 10 = m mod 10"
        using d by (intro digit_char_inj) simp_all
      ultimately show ?thesis
        by (metis div_mult_mod_eq)
    qed
  qed
qed

lemma show_int_inj: "show_int i = show_int j \<longleftrightarrow> i = j"
proof
  assume eq: "show_int i = show_int j"
  show "i = j"
  proof (cases "i < 0")
    case i: True
    show ?thesis
    proof (cases "j < 0")
      case True
      with i eq have "show_nat (nat (- i)) = show_nat (nat (- j))"
        by (simp add: show_int_def)
      then have "nat (- i) = nat (- j)" by (rule show_nat_inj)
      with i True show ?thesis by simp
    next
      case False
      with i eq have "CHR ''-'' # show_nat (nat (- i)) = show_nat (nat j)"
        by (simp add: show_int_def)
      then have "CHR ''-'' \<in> set (show_nat (nat j))"
        by (metis list.set_intros(1))
      then show ?thesis using show_nat_digits by blast
    qed
  next
    case i: False
    show ?thesis
    proof (cases "j < 0")
      case True
      with i eq have "show_nat (nat i) = CHR ''-'' # show_nat (nat (- j))"
        by (simp add: show_int_def)
      then have "CHR ''-'' \<in> set (show_nat (nat i))"
        by (metis list.set_intros(1))
      then show ?thesis using show_nat_digits by blast
    next
      case False
      with i eq have "show_nat (nat i) = show_nat (nat j)"
        by (simp add: show_int_def)
      then have "nat i = nat j" by (rule show_nat_inj)
      with i False show ?thesis by simp
    qed
  qed
qed simp

subsection \<open>The claims\<close>

lemma dispatch_unknown:
  "name \<notin> {''analyze_legal_case'', ''track_evidence'', ''monitor_deadlines'',
             ''document_judicial_bias'', ''child_welfare_assessment''} \<Longrightarrow>
   dispatch rt clk name args = Inl (McpError MethodNotFound (''Unknown tool: '' @ name))"
  by (simp add: dispatch_def)

text \<open>
  C1 (as the code behaves): a call of the unregistered name \<open>nonexistent_tool\<close> with the empty
  argument mapping does not fail with the MethodNotFound error. The error that the
  \<open>default\<close> branch throws is caught by the enclosing \<open>catch\<close> and the call fails with an
  InternalError, whose message embeds the message of the caught error.
\<close>

theorem invoke_nonexistent_tool_internal_error:
  "invoke rt clk ''nonexistent_tool'' Map.empty =
     Inl (McpError InternalError
            (''Error executing nonexistent_tool: '' @
             message_of rt (McpError MethodNotFound ''Unknown tool: nonexistent_tool'')))"
  by (simp add: invoke_def dispatch_def)

text \<open>
  C2 (as claimed): the descriptor of \<open>document_judicial_bias\<close> does not have the required
  set \<open>{bias_type, description}\<close>.
\<close>

theorem bias_required_set_differs:
  "required_sets ''document_judicial_bias'' \<noteq> [{''bias_type'', ''description''}]"
proof
  assume "required_sets ''document_judicial_bias'' = [{''bias_type'', ''description''}]"
  then have eq: "{''incident_date'', ''bias_type'', ''description''} = {''bias_type'', ''description''}"
    by (simp add: required_sets_def list_tools_def)
  have "''incident_date'' \<in> {''incident_date'', ''bias_type'', ''description''}"
    by (rule insertI1)
  then have "''incident_date'' \<in> {''bias_type'', ''description''}"
    by (simp only: eq)
  then show False
    by simp
qed

text \<open>
  C2 (amended): the list handler returns the five descriptors in registry order, exactly
  one under each name, with these required sets: \<open>{analysis_type}\<close>,
  \<open>{evidence_type, description}\<close>, \<open>{deadline_type, date, description}\<close>,
  \<open>{incident_date, bias_type, description}\<close> (so \<open>incident_date\<close> is required) and
  \<open>{assessment_date, concern_type, severity}\<close>.
\<close>

theorem list_tools_required_sets:
  "map tool_name list_tools =
     [''analyze_legal_case'', ''track_evidence'', ''monitor_deadlines'',
      ''document_judicial_bias'', ''child_welfare_assessment''] \<and>
   required_sets ''analyze_legal_case'' = [{''analysis_type''}] \<and>
   required_sets ''track_evidence'' = [{''evidence_type'', ''description''}] \<and>
   required_sets ''monitor_deadlines'' = [{''deadline_type'', ''date'', ''description''}] \<and>
   required_sets ''document_judicial_bias'' = [{''incident_date'', ''bias_type'', ''description''}] \<and>
   required_sets ''child_welfare_assessment'' = [{''assessment_date'', ''concern_type'', ''severity''}]"
  by (simp add: required_sets_def list_tools_def)

text \<open>
  C3 (as the code behaves): with the optional \<open>priority\<close> omitted the deadline report shows
  \<open>Priority: undefined\<close>, and with the optional \<open>impact\<close> omitted the bias report shows
  \<open>Impact: undefined\<close>; neither field has the fallback that the other optional fields
  have.
\<close>

theorem omitted_priority_and_impact_render_undefined:
  "invoke sample_runtime new_year ''monitor_deadlines''
     [''deadline_type'' \<mapsto> JStr ''filing_deadline'',
      ''date'' \<mapsto> JStr ''2030-01-08T00:00:00.000Z'',
      ''description'' \<mapsto> JStr ''File motion''] =
   Inr [Text (''Deadline Monitoring Activated\<newline>\<newline>'' @
              ''Deadline ID: deadline_1893456000000\<newline>'' @
              ''Type: filing_deadline\<newline>'' @
              ''Date: 2030-01-08T00:00:00.000Z\<newline>'' @
              ''Days Until: 7\<newline>'' @
              ''Urgency: URGENT\<newline>'' @
              ''Priority: undefined\<newline>'' @
              ''Description: File motion\<newline>\<newline>'' @
              ''Automatic alerts will be sent for this deadline. Fighting for Kekoa's future!'')] \<and>
   invoke sample_runtime new_year ''document_judicial_bias''
     [''incident_date'' \<mapsto> JStr ''2024-03-05'',
      ''bias_type'' \<mapsto> JStr ''procedural_bias'',
      ''description'' \<mapsto> JStr ''Motion denied without hearing''] =
   Inr [Text (''Judicial Bias Incident Documented\<newline>\<newline>'' @
              ''Incident ID: bias_incident_1893456000000\<newline>'' @
              ''Date: 2024-03-05\<newline>'' @
              ''Type: procedural_bias\<newline>'' @
              ''Impact: undefined\<newline>'' @
              ''Description: Motion denied without hearing\<newline>'' @
              ''Witnesses: None specified\<newline>\<newline>'' @
              ''This incident has been added to the judicial bias documentation for Case 1FDV-23-0001009. Justice for Kekoa - every instance of bias is documented and will be used to protect his future.'')]"
proof -
  have ids: "show_int 1893456000000 = ''1893456000000''" "show_int 7 = ''7''"
    by (simp_all add: show_int_def show_nat.simps digit_char_def)
  have days: "ceil_div 604800000 86400000 = 7"
    by (simp add: ceil_div_def)
  show ?thesis
    by (simp add: invoke_total_handlers monitorDeadlines_text invoke_def dispatch_simps
          documentJudicialBias_text field_def or_else_def daysUntil_def days show_days_def
          urgencyLevel_def sample_runtime_def new_year_def ids)
qed

text \<open>
  C4 (as claimed): a deadline whose date string does not parse makes no handler raise. The
  call succeeds; the day count is \<open>NaN\<close> and the urgency is the lowest band.
\<close>

theorem monitor_deadlines_invalid_date_succeeds:
  "invoke sample_runtime new_year ''monitor_deadlines''
     [''deadline_type'' \<mapsto> JStr ''hearing_date'',
      ''date'' \<mapsto> JStr ''not a date'',
      ''description'' \<mapsto> JStr ''Custody hearing'',
      ''priority'' \<mapsto> JStr ''high''] =
   Inr [Text (''Deadline Monitoring Activated\<newline>\<newline>'' @
              ''Deadline ID: deadline_1893456000000\<newline>'' @
              ''Type: hearing_date\<newline>'' @
              ''Date: not a date\<newline>'' @
              ''Days Until: NaN\<newline>'' @
              ''Urgency: SCHEDULED\<newline>'' @
              ''Priority: high\<newline>'' @
              ''Description: Custody hearing\<newline>\<newline>'' @
              ''Automatic alerts will be sent for this deadline. Fighting for Kekoa's future!'')]"
  by (simp add: invoke_total_handlers monitorDeadlines_text field_def daysUntil_def
        sample_runtime_def new_year_def show_days_def urgencyLevel_def
        show_int_def show_nat.simps digit_char_def)

text \<open>
  C4 (amended): for every call of the deadline-monitoring operation whose date argument
  is a string that does not parse, the handler does not raise: the call succeeds and the
  report shows \<open>Days Until: NaN\<close> and \<open>Urgency: SCHEDULED\<close>. For every registered
  operation and argument mapping, the call fails with a given error if and only if the
  handler raised, and then that error is the internal error whose message carries the
  operation name and the message of the error raised.
\<close>

theorem unparseable_date_is_rendered:
  assumes "args ''date'' = Some (JStr s)" and "date_parse rt s = None"
  shows "(\<exists>pre post. invoke rt clk ''monitor_deadlines'' args =
            Inr [Text (pre @ ''\<newline>Days Until: NaN\<newline>Urgency: SCHEDULED\<newline>Priority: '' @ post)]) \<and>
         (name \<in> {''analyze_legal_case'', ''track_evidence'', ''monitor_deadlines'',
                   ''document_judicial_bias'', ''child_welfare_assessment''} \<longrightarrow>
            (invoke rt clk name a = Inl e \<longleftrightarrow>
               (\<exists>e'. dispatch rt clk name a = Inl e' \<and>
                  e = McpError InternalError
                        (''Error executing '' @ name @ '': '' @ message_of rt e'))))"
proof -
  have days: "daysUntil rt clk args = None"
    using assms by (simp add: daysUntil_def field_def)
  have "invoke rt clk ''monitor_deadlines'' args =
      Inr [Text ((''Deadline Monitoring Activated\<newline>\<newline>'' @
                ''Deadline ID: '' @
                to_string (case args ''id'' of None \<Rightarrow> JStr (''deadline_'' @ show_int (clk 0)) | Some v \<Rightarrow> v) @
                ''\<newline>'' @
                ''Type: '' @ to_string (field args ''deadline_type'') @ ''\<newline>'' @
                ''Date: '' @ to_string (field args ''date'')) @
                ''\<newline>Days Until: NaN\<newline>Urgency: SCHEDULED\<newline>Priority: '' @
                (to_string (field args ''priority'') @ ''\<newline>'' @
                ''Description: '' @ to_string (field args ''description'') @ ''\<newline>\<newline>'' @
                ''Automatic alerts will be sent for this deadline. Fighting for Kekoa's future!''))]"
    by (simp add: invoke_total_handlers monitorDeadlines_text days show_days_def urgencyLevel_def)
  then have "\<exists>pre post. invoke rt clk ''monitor_deadlines'' args =
            Inr [Text (pre @ ''\<newline>Days Until: NaN\<newline>Urgency: SCHEDULED\<newline>Priority: '' @ post)]"
    by blast
  then show ?thesis
    using invoke_wraps [of rt clk name a e] by blast
qed

text \<open>
  An unparseable date is rendered, and a witness list that is a string makes the bias
  handler raise, which the call wraps.
\<close>

theorem unparseable_date_is_rendered_witness:
  "(\<exists>pre post. invoke sample_runtime new_year ''monitor_deadlines''
       [''deadline_type'' \<mapsto> JStr ''appeal_deadline'',
        ''date'' \<mapsto> JStr ''tomorrow'',
        ''description'' \<mapsto> JStr ''Notice of appeal''] =
     Inr [Text (pre @ ''\<newline>Days Until: NaN\<newline>Urgency: SCHEDULED\<newline>Priority: '' @ post)]) \<and>
   invoke sample_runtime new_year ''document_judicial_bias''
       [''witnesses'' \<mapsto> JStr ''J. Doe''] =
     Inl (McpError InternalError
       ''Error executing document_judicial_bias: incident.witnesses?.join is not a function'')"
  using unparseable_date_is_rendered [of
       "[''deadline_type'' \<mapsto> JStr ''appeal_deadline'',
        ''date'' \<mapsto> JStr ''tomorrow'',
        ''description'' \<mapsto> JStr ''Notice of appeal'']" "''tomorrow''" sample_runtime new_year
       "''document_judicial_bias''" "[''witnesses'' \<mapsto> JStr ''J. Doe'']"
       "McpError InternalError
       ''Error executing document_judicial_bias: incident.witnesses?.join is not a function''"]
  by (simp add: sample_runtime_def dispatch_simps documentJudicialBias_text field_def
        sample_message_def)

lemma ceil_div_ceiling: "ceil_div x d = \<lceil>real_of_int x / real_of_int d\<rceil>"
  by (simp add: ceil_div_def ceiling_divide_eq_div)

text \<open>
  C5: when the supplied date is a valid one, with time value \<open>t\<close>, and \<open>d\<close> is the number of
  whole days from the clock reading to \<open>t\<close> (the quotient rounded up), the report of the
  deadline-monitoring operation shows \<open>d\<close> and its urgency band: URGENT for \<open>d \<le> 7\<close>,
  IMPORTANT for \<open>7 < d \<le> 30\<close>, SCHEDULED for \<open>d > 30\<close>.
\<close>

theorem monitorDeadlines_urgency_bands:
  assumes "date_value rt (field args ''date'') = Some t"
    and "d = \<lceil>real_of_int (t - clk 2) / 86400000\<rceil>"
  shows "(\<exists>pre post. invoke rt clk ''monitor_deadlines'' args =
            Inr [Text (pre @ ''\<newline>Days Until: '' @ show_int d @
                       ''\<newline>Urgency: '' @ urgencyLevel (Some d) @ ''\<newline>Priority: '' @ post)]) \<and>
         (d \<le> 7 \<longrightarrow> urgencyLevel (Some d) = ''URGENT'') \<and>
         (7 < d \<and> d \<le> 30 \<longrightarrow> urgencyLevel (Some d) = ''IMPORTANT'') \<and>
         (30 < d \<longrightarrow> urgencyLevel (Some d) = ''SCHEDULED'')"
proof -
  have days: "daysUntil rt clk args = Some d"
    using assms by (simp add: daysUntil_def ceil_div_ceiling)
  have "invoke rt clk ''monitor_deadlines'' args =
      Inr [Text ((''Deadline Monitoring Activated\<newline>\<newline>'' @
                ''Deadline ID: '' @
                to_string (case args ''id'' of None \<Rightarrow> JStr (''deadline_'' @ show_int (clk 0)) | Some v \<Rightarrow> v) @
                ''\<newline>'' @
                ''Type: '' @ to_string (field args ''deadline_type'') @ ''\<newline>'' @
                ''Date: '' @ to_string (field args ''date'')) @
                ''\<newline>Days Until: '' @ show_int d @
                ''\<newline>Urgency: '' @ urgencyLevel (Some d) @ ''\<newline>Priority: '' @
                (to_string (field args ''priority'') @ ''\<newline>'' @
                ''Description: '' @ to_string (field args ''description'') @ ''\<newline>\<newline>'' @
                ''Automatic alerts will be sent for this deadline. Fighting for Kekoa's future!''))]"
    by (simp add: invoke_total_handlers monitorDeadlines_text days show_days_def)
  then have "\<exists>pre post. invoke rt clk ''monitor_deadlines'' args =
            Inr [Text (pre @ ''\<newline>Days Until: '' @ show_int d @
                       ''\<newline>Urgency: '' @ urgencyLevel (Some d) @ ''\<newline>Priority: '' @ post)]"
    by blast
  moreover have "d \<le> 7 \<longrightarrow> urgencyLevel (Some d) = ''URGENT''"
    by (simp add: urgencyLevel_def)
  moreover have "7 < d \<and> d \<le> 30 \<longrightarrow> urgencyLevel (Some d) = ''IMPORTANT''"
    by (simp add: urgencyLevel_def)
  moreover have "30 < d \<longrightarrow> urgencyLevel (Some d) = ''SCHEDULED''"
    by (simp add: urgencyLevel_def)
  ultimately show ?thesis by blast
qed

text \<open>
  Deadlines exactly 7, 8, 30 and 31 days after the clock reading: highest, middle, middle
  and lowest band.
\<close>

theorem monitorDeadlines_urgency_bands_witness:
  "(\<exists>pre post. invoke sample_runtime new_year ''monitor_deadlines''
       [''deadline_type'' \<mapsto> JStr ''filing_deadline'',
        ''date'' \<mapsto> JStr ''2030-01-08T00:00:00.000Z'',
        ''description'' \<mapsto> JStr ''File motion''] =
     Inr [Text (pre @ ''\<newline>Days Until: 7\<newline>Urgency: URGENT\<newline>Priority: '' @ post)]) \<and>
   (\<exists>pre post. invoke sample_runtime new_year ''monitor_deadlines''
       [''deadline_type'' \<mapsto> JStr ''filing_deadline'',
        ''date'' \<mapsto> JStr ''2030-01-09T00:00:00.000Z'',
        ''description'' \<mapsto> JStr ''File motion''] =
     Inr [Text (pre @ ''\<newline>Days Until: 8\<newline>Urgency: IMPORTANT\<newline>Priority: '' @ post)]) \<and>
   (\<exists>pre post. invoke sample_runtime new_year ''monitor_deadlines''
       [''deadline_type'' \<mapsto> JStr ''filing_deadline'',
        ''date'' \<mapsto> JStr ''2030-01-31T00:00:00.000Z'',
        ''description'' \<mapsto> JStr ''File motion''] =
     Inr [Text (pre @ ''\<newline>Days Until: 30\<newline>Urgency: IMPORTANT\<newline>Priority: '' @ post)]) \<and>
   (\<exists>pre post. invoke sample_runtime new_year ''monitor_deadlines''
       [''deadline_type'' \<mapsto> JStr ''filing_deadline'',
        ''date'' \<mapsto> JStr ''2030-02-01T00:00:00.000Z'',
        ''description'' \<mapsto> JStr ''File motion''] =
     Inr [Text (pre @ ''\<newline>Days Until: 31\<newline>Urgency: SCHEDULED\<newline>Priority: '' @ post)])"
  using monitorDeadlines_urgency_bands [of sample_runtime
       "[''deadline_type'' \<mapsto> JStr ''filing_deadline'',
        ''date'' \<mapsto> JStr ''2030-01-08T00:00:00.000Z'',
        ''description'' \<mapsto> JStr ''File motion'']" 1894060800000 7 new_year]
    monitorDeadlines_urgency_bands [of sample_runtime
       "[''deadline_type'' \<mapsto> JStr ''filing_deadline'',
        ''date'' \<mapsto> JStr ''2030-01-09T00:00:00.000Z'',
        ''description'' \<mapsto> JStr ''File motion'']" 1894147200000 8 new_year]
    monitorDeadlines_urgency_bands [of sample_runtime
       "[''deadline_type'' \<mapsto> JStr ''filing_deadline'',
        ''date'' \<mapsto> JStr ''2030-01-31T00:00:00.000Z'',
        ''description'' \<mapsto> JStr ''File motion'']" 1896048000000 30 new_year]
    monitorDeadlines_urgency_bands [of sample_runtime
       "[''deadline_type'' \<mapsto> JStr ''filing_deadline'',
        ''date'' \<mapsto> JStr ''2030-02-01T00:00:00.000Z'',
        ''description'' \<mapsto> JStr ''File motion'']" 1896134400000 31 new_year]
  by (simp add: sample_runtime_def new_year_def field_def show_int_def show_nat.simps
        digit_char_def urgencyLevel_def)

lemma invoke_analyze_clock:
  "invoke rt ca ''analyze_legal_case'' args = invoke rt cb ''analyze_legal_case'' args"
  by (simp add: invoke_def dispatch_simps analyzeLegalCase_def Let_def)

text \<open>
  C6 (as claimed): two calls that both start in the millisecond \<open>1893456000000\<close> show the
  same evidence id; and two deadline calls one millisecond apart, across a day boundary,
  differ in the \<open>Days Until\<close> and \<open>Urgency\<close> lines as well as in the id.
\<close>

theorem successive_invocations_same_id_or_other_text:
  "invoke sample_runtime new_year ''track_evidence''
     [''evidence_type'' \<mapsto> JStr ''photo'', ''description'' \<mapsto> JStr ''Exhibit 4''] =
   Inr [Text (''Evidence Tracked Successfully\<newline>\<newline>'' @
              ''Evidence ID: evidence_1893456000000\<newline>'' @
              ''Type: photo\<newline>'' @
              ''Description: Exhibit 4\<newline>'' @
              ''Relevance: Not specified\<newline>'' @
              ''Date Collected: Not specified\<newline>\<newline>'' @
              ''This evidence has been added to the Case 1FDV-23-0001009 evidence database.'')] \<and>
   invoke sample_runtime new_year_ticking ''track_evidence''
     [''evidence_type'' \<mapsto> JStr ''photo'', ''description'' \<mapsto> JStr ''Exhibit 4''] =
   Inr [Text (''Evidence Tracked Successfully\<newline>\<newline>'' @
              ''Evidence ID: evidence_1893456000000\<newline>'' @
              ''Type: photo\<newline>'' @
              ''Description: Exhibit 4\<newline>'' @
              ''Relevance: Not specified\<newline>'' @
              ''Date Collected: Not specified\<newline>\<newline>'' @
              ''This evidence has been added to the Case 1FDV-23-0001009 evidence database.'')] \<and>
   invoke sample_runtime last_millisecond ''monitor_deadlines''
     [''deadline_type'' \<mapsto> JStr ''filing_deadline'',
      ''date'' \<mapsto> JStr ''2030-01-08T00:00:00.000Z'',
      ''description'' \<mapsto> JStr ''File motion'',
      ''priority'' \<mapsto> JStr ''high''] =
   Inr [Text (''Deadline Monitoring Activated\<newline>\<newline>'' @
              ''Deadline ID: deadline_1893455999999\<newline>'' @
              ''Type: filing_deadline\<newline>'' @
              ''Date: 2030-01-08T00:00:00.000Z\<newline>'' @
              ''Days Until: 8\<newline>'' @
              ''Urgency: IMPORTANT\<newline>'' @
              ''Priority: high\<newline>'' @
              ''Description: File motion\<newline>\<newline>'' @
              ''Automatic alerts will be sent for this deadline. Fighting for Kekoa's future!'')] \<and>
   invoke sample_runtime new_year ''monitor_deadlines''
     [''deadline_type'' \<mapsto> JStr ''filing_deadline'',
      ''date'' \<mapsto> JStr ''2030-01-08T00:00:00.000Z'',
      ''description'' \<mapsto> JStr ''File motion'',
      ''priority'' \<mapsto> JStr ''high''] =
   Inr [Text (''Deadline Monitoring Activated\<newline>\<newline>'' @
              ''Deadline ID: deadline_1893456000000\<newline>'' @
              ''Type: filing_deadline\<newline>'' @
              ''Date: 2030-01-08T00:00:00.000Z\<newline>'' @
              ''Days Until: 7\<newline>'' @
              ''Urgency: URGENT\<newline>'' @
              ''Priority: high\<newline>'' @
              ''Description: File motion\<newline>\<newline>'' @
              ''Automatic alerts will be sent for this deadline. Fighting for Kekoa's future!'')]"
proof -
  have ids: "show_int 1893456000000 = ''1893456000000''"
    "show_int 1893455999999 = ''1893455999999''" "show_int 7 = ''7''" "show_int 8 = ''8''"
    by (simp_all add: show_int_def show_nat.simps digit_char_def)
  have days: "ceil_div 604800001 86400000 = 8" "ceil_div 604800000 86400000 = 7"
    by (simp_all add: ceil_div_def)
  show ?thesis
    by (simp add: invoke_total_handlers trackEvidence_text monitorDeadlines_text field_def
          or_else_def daysUntil_def days show_days_def urgencyLevel_def sample_runtime_def
          new_year_def new_year_ticking_def last_millisecond_def ids)
qed

text \<open>
  C6 (amended): let the arguments have no \<open>id\<close> field of their own. For evidence tracking
  and welfare assessment the text is a fixed prefix, the decimal rendering of the first
  clock reading, and a fixed suffix, neither depending on the clock; for bias
  documentation likewise, unless the call fails, and then with the same error whatever
  the clock; for deadline monitoring the same holds apart from the \<open>Days Until\<close> and
  \<open>Urgency\<close> fields, which follow the clock too. Case analysis generates no id and its
  result does not depend on the clock. The ids of two calls are equal exactly when
  their first clock readings are.
\<close>

theorem successive_invocations:
  assumes "args ''id'' = None"
  shows "(\<exists>pre post. \<forall>clk. invoke rt clk ''track_evidence'' args =
            Inr [Text (pre @ ''Evidence ID: evidence_'' @ show_int (clk 0) @ ''\<newline>'' @ post)]) \<and>
         (\<exists>pre post. \<forall>clk. invoke rt clk ''child_welfare_assessment'' args =
            Inr [Text (pre @ ''Assessment ID: welfare_'' @ show_int (clk 0) @ ''\<newline>'' @ post)]) \<and>
         ((\<exists>pre post. \<forall>clk. invoke rt clk ''document_judicial_bias'' args =
            Inr [Text (pre @ ''Incident ID: bias_incident_'' @ show_int (clk 0) @ ''\<newline>'' @ post)]) \<or>
          (\<exists>e. \<forall>clk. invoke rt clk ''document_judicial_bias'' args = Inl e)) \<and>
         (\<exists>pre mid post. \<forall>clk. invoke rt clk ''monitor_deadlines'' args =
            Inr [Text (pre @ ''Deadline ID: deadline_'' @ show_int (clk 0) @ ''\<newline>'' @ mid @
                       ''Days Until: '' @ show_days (daysUntil rt clk args) @ ''\<newline>'' @
                       ''Urgency: '' @ urgencyLevel (daysUntil rt clk args) @ ''\<newline>'' @ post)]) \<and>
         invoke rt ca ''analyze_legal_case'' args = invoke rt cb ''analyze_legal_case'' args \<and>
         (show_int (ca 0) = show_int (cb 0) \<longleftrightarrow> ca 0 = cb 0)"
proof -
  have ev: "\<forall>clk. invoke rt clk ''track_evidence'' args =
     Inr [Text (''Evidence Tracked Successfully\<newline>\<newline>'' @
                ''Evidence ID: evidence_'' @ show_int (clk 0) @ ''\<newline>'' @
                (''Type: '' @ to_string (field args ''evidence_type'') @ ''\<newline>'' @
                ''Description: '' @ to_string (field args ''description'') @ ''\<newline>'' @
                ''Relevance: '' @ or_else (field args ''relevance'') ''Not specified'' @ ''\<newline>'' @
                ''Date Collected: '' @ or_else (field args ''date_collected'') ''Not specified'' @
                ''\<newline>\<newline>'' @
                ''This evidence has been added to the Case 1FDV-23-0001009 evidence database.''))]"
    using assms by (simp add: invoke_total_handlers trackEvidence_text)
  have we: "\<forall>clk. invoke rt clk ''child_welfare_assessment'' args =
     Inr [Text (''Child Welfare Assessment Completed\<newline>\<newline>'' @
                ''Assessment ID: welfare_'' @ show_int (clk 0) @ ''\<newline>'' @
                (''Child: Kekoa\<newline>'' @
                ''Date: '' @ to_string (field args ''assessment_date'') @ ''\<newline>'' @
                ''Concern Type: '' @ to_string (field args ''concern_type'') @ ''\<newline>'' @
                ''Severity: '' @ to_string (field args ''severity'') @ ''\<newline>'' @
                ''Evidence: '' @ or_else (field args ''evidence'') ''To be gathered'' @ ''\<newline>'' @
                ''Recommended Action: '' @
                or_else (field args ''recommended_action'') ''Under review'' @ ''\<newline>\<newline>'' @
                ''Kekoa's welfare is our top priority. This assessment will be used to ensure his safety and well-being.''))]"
    using assms by (simp add: invoke_total_handlers assessChildWelfare_text)
  have mo: "\<forall>clk. invoke rt clk ''monitor_deadlines'' args =
     Inr [Text (''Deadline Monitoring Activated\<newline>\<newline>'' @
                ''Deadline ID: deadline_'' @ show_int (clk 0) @ ''\<newline>'' @
                (''Type: '' @ to_string (field args ''deadline_type'') @ ''\<newline>'' @
                ''Date: '' @ to_string (field args ''date'') @ ''\<newline>'') @
                ''Days Until: '' @ show_days (daysUntil rt clk args) @ ''\<newline>'' @
                ''Urgency: '' @ urgencyLevel (daysUntil rt clk args) @ ''\<newline>'' @
                (''Priority: '' @ to_string (field args ''priority'') @ ''\<newline>'' @
                ''Description: '' @ to_string (field args ''description'') @ ''\<newline>\<newline>'' @
                ''Automatic alerts will be sent for this deadline. Fighting for Kekoa's future!''))]"
    using assms by (simp add: invoke_total_handlers monitorDeadlines_text)
  have bi: "(\<exists>pre post. \<forall>clk. invoke rt clk ''document_judicial_bias'' args =
            Inr [Text (pre @ ''Incident ID: bias_incident_'' @ show_int (clk 0) @ ''\<newline>'' @ post)]) \<or>
          (\<exists>e. \<forall>clk. invoke rt clk ''document_judicial_bias'' args = Inl e)"
  proof (cases "witnesses_join (field args ''witnesses'')")
    case (Inl e)
    then have "\<forall>clk. invoke rt clk ''document_judicial_bias'' args =
        Inl (McpError InternalError
               (''Error executing document_judicial_bias: '' @ message_of rt e))"
      by (simp add: invoke_def dispatch_simps documentJudicialBias_text)
    then show ?thesis by blast
  next
    case (Inr joined)
    then have "\<forall>clk. invoke rt clk ''document_judicial_bias'' args =
      Inr [Text (''Judicial Bias Incident Documented\<newline>\<newline>'' @
                ''Incident ID: bias_incident_'' @ show_int (clk 0) @ ''\<newline>'' @
                (''Date: '' @ to_string (field args ''incident_date'') @ ''\<newline>'' @
                ''Type: '' @ to_string (field args ''bias_type'') @ ''\<newline>'' @
                ''Impact: '' @ to_string (field args ''impact'') @ ''\<newline>'' @
                ''Description: '' @ to_string (field args ''description'') @ ''\<newline>'' @
                ''Witnesses: '' @ or_else joined ''None specified'' @ ''\<newline>\<newline>'' @
                ''This incident has been added to the judicial bias documentation for Case 1FDV-23-0001009. Justice for Kekoa - every instance of bias is documented and will be used to protect his future.''))]"
      using assms by (simp add: invoke_def dispatch_simps documentJudicialBias_text)
    then show ?thesis by blast
  qed
  from ev have 1: "\<exists>pre post. \<forall>clk. invoke rt clk ''track_evidence'' args =
            Inr [Text (pre @ ''Evidence ID: evidence_'' @ show_int (clk 0) @ ''\<newline>'' @ post)]"
    by blast
  from we have 2: "\<exists>pre post. \<forall>clk. invoke rt clk ''child_welfare_assessment'' args =
            Inr [Text (pre @ ''Assessment ID: welfare_'' @ show_int (clk 0) @ ''\<newline>'' @ post)]"
    by blast
  from mo have 3: "\<exists>pre mid post. \<forall>clk. invoke rt clk ''monitor_deadlines'' args =
            Inr [Text (pre @ ''Deadline ID: deadline_'' @ show_int (clk 0) @ ''\<newline>'' @ mid @
                       ''Days Until: '' @ show_days (daysUntil rt clk args) @ ''\<newline>'' @
                       ''Urgency: '' @ urgencyLevel (daysUntil rt clk args) @ ''\<newline>'' @ post)]"
    by blast
  show ?thesis
    using 1 2 3 bi invoke_analyze_clock [of rt ca args cb] show_int_inj [of "ca 0" "cb 0"]
    by (intro conjI)
qed

text \<open>Evidence tracking on the sample platform, one millisecond apart.\<close>

theorem successive_invocations_witness:
  "(\<exists>pre post. \<forall>clk. invoke sample_runtime clk ''track_evidence''
        [''evidence_type'' \<mapsto> JStr ''photo'', ''description'' \<mapsto> JStr ''Exhibit 4''] =
      Inr [Text (pre @ ''Evidence ID: evidence_'' @ show_int (clk 0) @ ''\<newline>'' @ post)]) \<and>
   show_int (last_millisecond 0) \<noteq> show_int (new_year 0)"
  using successive_invocations [where rt = sample_runtime and ca = last_millisecond and
      cb = new_year and
      args = "[''evidence_type'' \<mapsto> JStr ''photo'', ''description'' \<mapsto> JStr ''Exhibit 4'']"]
  by (simp add: last_millisecond_def new_year_def)

text \<open>
  C7: tracking evidence with only \<open>evidence_type = document\<close> and
  \<open>description = court filing\<close> succeeds, and the report has the lines
  \<open>Relevance: Not specified\<close> and \<open>Date Collected: Not specified\<close>.
\<close>

theorem track_evidence_placeholders:
  "invoke rt clk ''track_evidence''
     [''evidence_type'' \<mapsto> JStr ''document'', ''description'' \<mapsto> JStr ''court filing''] =
   Inr [Text (''Evidence Tracked Successfully\<newline>\<newline>'' @
              ''Evidence ID: evidence_'' @ show_int (clk 0) @ ''\<newline>'' @
              ''Type: document\<newline>'' @
              ''Description: court filing\<newline>'' @
              ''Relevance: Not specified\<newline>'' @
              ''Date Collected: Not specified\<newline>\<newline>'' @
              ''This evidence has been added to the Case 1FDV-23-0001009 evidence database.'')]"
  by (simp add: invoke_total_handlers trackEvidence_text field_def or_else_def)

text \<open>
  C8: the welfare assessment of \<open>2024-01-01\<close> with concern \<open>neglect\<close> and severity \<open>critical\<close>
  succeeds, and the report holds the fixed child name \<open>Kekoa\<close>, the concern type and the
  severity as given.
\<close>

theorem child_welfare_assessment_verbatim:
  "invoke rt clk ''child_welfare_assessment''
     [''assessment_date'' \<mapsto> JStr ''2024-01-01'', ''concern_type'' \<mapsto> JStr ''neglect'',
      ''severity'' \<mapsto> JStr ''critical''] =
   Inr [Text (''Child Welfare Assessment Completed\<newline>\<newline>'' @
              ''Assessment ID: welfare_'' @ show_int (clk 0) @ ''\<newline>'' @
              ''Child: Kekoa\<newline>'' @
              ''Date: 2024-01-01\<newline>'' @
              ''Concern Type: neglect\<newline>'' @
              ''Severity: critical\<newline>'' @
              ''Evidence: To be gathered\<newline>'' @
              ''Recommended Action: Under review\<newline>\<newline>'' @
              ''Kekoa's welfare is our top priority. This assessment will be used to ensure his safety and well-being.'')]"
  by (simp add: invoke_total_handlers assessChildWelfare_text field_def or_else_def)

lemma findings_table_keys:
  "map_of findings_table k = None \<or> k \<notin> set object_prototype_members"
  by (simp add: findings_table_def object_prototype_members_def)

text \<open>
  The report of the case-analysis operation: the recommendations and the next steps are
  the same two lists of four strings whatever the arguments are, and a result renders
  them unchanged after the key findings. There is a result exactly when \<open>analysis_type\<close>
  names no member inherited from \<open>Object.prototype\<close>.
\<close>

lemma analyzeLegalCase_report:
  "generateRecommendations t f =
     [''File motion for judicial recusal based on documented bias'',
      ''Request emergency hearing for child welfare concerns'',
      ''Gather additional evidence of procedural violations'',
      ''Consider federal civil rights lawsuit if state remedies fail''] \<and>
   generateNextSteps t f =
     [''Prepare comprehensive bias documentation package'',
      ''Schedule emergency consultation with civil rights attorney'',
      ''Document all future interactions with court system'',
      ''Prioritize Kekoa's immediate safety and well-being''] \<and>
   invoke rt clk ''analyze_legal_case'' args =
     (case generateAnalysisFindings (field args ''analysis_type'') (field args ''focus_area'') of
        Inherited k \<Rightarrow>
          Inl (McpError InternalError
                 (''Error executing analyze_legal_case: '' @
                  message_of rt (NotAFunction ''analysis.findings.join'')))
      | StringArray fs \<Rightarrow>
          Inr [Text (''Legal Case Analysis Complete for '' @
                     to_string (case args ''case_id'' of None \<Rightarrow> JStr ''1FDV-23-0001009''
                                | Some JUndefined \<Rightarrow> JStr ''1FDV-23-0001009'' | Some v \<Rightarrow> v) @
                     ''\<newline>\<newline>'' @
                     ''Analysis Type: '' @ to_string (field args ''analysis_type'') @ ''\<newline>'' @
                     ''Focus Area: '' @ or_else (field args ''focus_area'') ''General'' @
                     ''\<newline>\<newline>'' @
                     ''Key Findings:\<newline>'' @ join_str ''\<newline>'' fs @ ''\<newline>\<newline>'' @
                     ''Recommendations:\<newline>'' @
                     ''File motion for judicial recusal based on documented bias\<newline>'' @
                     ''Request emergency hearing for child welfare concerns\<newline>'' @
                     ''Gather additional evidence of procedural violations\<newline>'' @
                     ''Consider federal civil rights lawsuit if state remedies fail\<newline>\<newline>'' @
                     ''Next Steps:\<newline>'' @
                     ''Prepare comprehensive bias documentation package\<newline>'' @
                     ''Schedule emergency consultation with civil rights attorney\<newline>'' @
                     ''Document all future interactions with court system\<newline>'' @
                     ''Prioritize Kekoa's immediate safety and well-being'')]) \<and>
   ((\<exists>fs. generateAnalysisFindings t f = StringArray fs) \<longleftrightarrow>
      to_string t \<notin> set object_prototype_members)"
proof -
  have 1: "invoke rt clk ''analyze_legal_case'' args =
     (case generateAnalysisFindings (field args ''analysis_type'') (field args ''focus_area'') of
        Inherited k \<Rightarrow>
          Inl (McpError InternalError
                 (''Error executing analyze_legal_case: '' @
                  message_of rt (NotAFunction ''analysis.findings.join'')))
      | StringArray fs \<Rightarrow>
          Inr [Text (''Legal Case Analysis Complete for '' @
                     to_string (case args ''case_id'' of None \<Rightarrow> JStr ''1FDV-23-0001009''
                                | Some JUndefined \<Rightarrow> JStr ''1FDV-23-0001009'' | Some v \<Rightarrow> v) @
                     ''\<newline>\<newline>'' @
                     ''Analysis Type: '' @ to_string (field args ''analysis_type'') @ ''\<newline>'' @
                     ''Focus Area: '' @ or_else (field args ''focus_area'') ''General'' @
                     ''\<newline>\<newline>'' @
                     ''Key Findings:\<newline>'' @ join_str ''\<newline>'' fs @ ''\<newline>\<newline>'' @
                     ''Recommendations:\<newline>'' @
                     ''File motion for judicial recusal based on documented bias\<newline>'' @
                     ''Request emergency hearing for child welfare concerns\<newline>'' @
                     ''Gather additional evidence of procedural violations\<newline>'' @
                     ''Consider federal civil rights lawsuit if state remedies fail\<newline>\<newline>'' @
                     ''Next Steps:\<newline>'' @
                     ''Prepare comprehensive bias documentation package\<newline>'' @
                     ''Schedule emergency consultation with civil rights attorney\<newline>'' @
                     ''Document all future interactions with court system\<newline>'' @
                     ''Prioritize Kekoa's immediate safety and well-being'')])"
    by (simp add: invoke_def dispatch_simps analyzeLegalCase_def Let_def
          generateRecommendations_def generateNextSteps_def caseId_def field_def [of args "''case_id''"]
          split: findings_value.splits option.splits jsval.splits)
  have 2: "(\<exists>fs. generateAnalysisFindings t f = StringArray fs) \<longleftrightarrow>
      to_string t \<notin> set object_prototype_members"
    using findings_table_keys [of "to_string t"]
    by (auto simp: generateAnalysisFindings_def Let_def split: option.splits)
  show ?thesis
    using 1 2 by (simp add: generateRecommendations_def generateNextSteps_def)
qed

text \<open>The key findings follow \<open>analysis_type\<close>; an unrecognised type gets the fallback.\<close>

lemma findings_by_type:
  "generateAnalysisFindings (JStr ''bias_detection'') f =
     StringArray [''Multiple instances of procedural bias identified'',
                  ''Pattern of discriminatory treatment documented'',
                  ''Due process violations found in court proceedings'']"
  "generateAnalysisFindings (JStr ''timeline_analysis'') f =
     StringArray [''Critical timeline gaps identified in case progression'',
                  ''Delay tactics used to Casey's disadvantage'',
                  ''Child's best interests not prioritized in scheduling'']"
  "generateAnalysisFindings (JStr ''precedent_research'') f =
     StringArray [''Similar cases show pattern of judicial overreach'',
                  ''Federal civil rights precedents support Casey's position'',
                  ''Child welfare standards not being properly applied'']"
  "generateAnalysisFindings (JStr ''civil_rights_review'') f =
     StringArray [''Constitutional violations present in case handling'',
                  ''Equal protection under law compromised'',
                  ''Parental rights unlawfully restricted'']"
  "generateAnalysisFindings (JStr ''unknown_type'') f =
     StringArray [''Analysis completed - detailed findings available'']"
  "generateAnalysisFindings JUndefined f =
     StringArray [''Analysis completed - detailed findings available'']"
  "generateAnalysisFindings (JStr ''constructor'') f = Inherited ''constructor''"
  by (simp_all add: generateAnalysisFindings_def findings_table_def
        object_prototype_members_def)

text \<open>
  C9 (as the code behaves): not every call of the case-analysis operation has a result
  with the two fixed sections. With \<open>analysis_type = constructor\<close> the lookup
  \<open>findings[type]\<close> finds the inherited member, the fallback list is skipped, \<open>join\<close> is no
  function and the call fails with an internal error. Another unrecognised type gets
  the fallback finding, and a recognised type its own three findings, each followed by
  the same recommendations and next steps.
\<close>

theorem analyze_legal_case_inherited_type_fails:
  "invoke sample_runtime new_year ''analyze_legal_case''
     [''analysis_type'' \<mapsto> JStr ''constructor''] =
   Inl (McpError InternalError
          ''Error executing analyze_legal_case: analysis.findings.join is not a function'') \<and>
   invoke sample_runtime new_year ''analyze_legal_case''
     [''analysis_type'' \<mapsto> JStr ''unknown_type''] =
   Inr [Text (''Legal Case Analysis Complete for 1FDV-23-0001009\<newline>\<newline>'' @
              ''Analysis Type: unknown_type\<newline>'' @
              ''Focus Area: General\<newline>\<newline>'' @
              ''Key Findings:\<newline>'' @
              ''Analysis completed - detailed findings available\<newline>\<newline>'' @
              ''Recommendations:\<newline>'' @
              ''File motion for judicial recusal based on documented bias\<newline>'' @
              ''Request emergency hearing for child welfare concerns\<newline>'' @
              ''Gather additional evidence of procedural violations\<newline>'' @
              ''Consider federal civil rights lawsuit if state remedies fail\<newline>\<newline>'' @
              ''Next Steps:\<newline>'' @
              ''Prepare comprehensive bias documentation package\<newline>'' @
              ''Schedule emergency consultation with civil rights attorney\<newline>'' @
              ''Document all future interactions with court system\<newline>'' @
              ''Prioritize Kekoa's immediate safety and well-being'')] \<and>
   invoke sample_runtime new_year ''analyze_legal_case''
     [''analysis_type'' \<mapsto> JStr ''bias_detection'', ''focus_area'' \<mapsto> JStr ''due_process''] =
   Inr [Text (''Legal Case Analysis Complete for 1FDV-23-0001009\<newline>\<newline>'' @
              ''Analysis Type: bias_detection\<newline>'' @
              ''Focus Area: due_process\<newline>\<newline>'' @
              ''Key Findings:\<newline>'' @
              ''Multiple instances of procedural bias identified\<newline>'' @
              ''Pattern of discriminatory treatment documented\<newline>'' @
              ''Due process violations found in court proceedings\<newline>\<newline>'' @
              ''Recommendations:\<newline>'' @
              ''File motion for judicial recusal based on documented bias\<newline>'' @
              ''Request emergency hearing for child welfare concerns\<newline>'' @
              ''Gather additional evidence of procedural violations\<newline>'' @
              ''Consider federal civil rights lawsuit if state remedies fail\<newline>\<newline>'' @
              ''Next Steps:\<newline>'' @
              ''Prepare comprehensive bias documentation package\<newline>'' @
              ''Schedule emergency consultation with civil rights attorney\<newline>'' @
              ''Document all future interactions with court system\<newline>'' @
              ''Prioritize Kekoa's immediate safety and well-being'')]"
  by (simp add: invoke_def dispatch_simps analyzeLegalCase_def Let_def findings_by_type
        generateRecommendations_def generateNextSteps_def caseId_def field_def or_else_def
        sample_runtime_def sample_message_def)

lemma join_str_empty_iff:
  "sep \<noteq> [] \<Longrightarrow> join_str sep ws = [] \<longleftrightarrow> ws = [] \<or> ws = [[]]"
  by (induction sep ws rule: join_str.induct) auto

lemma array_join_strings: "array_join sep (map JStr ws) = join_str sep ws"
  by (simp add: array_join_def comp_def)

lemma invoke_bias_joined:
  assumes "witnesses_join (field args ''witnesses'') = Inr joined"
  shows "invoke rt clk ''document_judicial_bias'' args =
     Inr [Text ((''Judicial Bias Incident Documented\<newline>\<newline>'' @
                ''Incident ID: '' @
                to_string (case args ''id'' of None \<Rightarrow> JStr (''bias_incident_'' @ show_int (clk 0)) | Some v \<Rightarrow> v) @
                ''\<newline>'' @
                ''Date: '' @ to_string (field args ''incident_date'') @ ''\<newline>'' @
                ''Type: '' @ to_string (field args ''bias_type'') @ ''\<newline>'' @
                ''Impact: '' @ to_string (field args ''impact'') @ ''\<newline>'' @
                ''Description: '' @ to_string (field args ''description'')) @
                ''\<newline>Witnesses: '' @ or_else joined ''None specified'' @ ''\<newline>\<newline>'' @
                ''This incident has been added to the judicial bias documentation for Case 1FDV-23-0001009. Justice for Kekoa - every instance of bias is documented and will be used to protect his future.'')]"
  using assms by (simp add: invoke_def dispatch_simps documentJudicialBias_text)

text \<open>
  C10 (as claimed): the witness list holding one empty name is not rendered as its join,
  which is the empty string, but as \<open>None specified\<close>.
\<close>

theorem single_empty_witness_name:
  "invoke sample_runtime new_year ''document_judicial_bias''
     [''incident_date'' \<mapsto> JStr ''2024-03-05'', ''bias_type'' \<mapsto> JStr ''gender_bias'',
      ''description'' \<mapsto> JStr ''Remark from the bench'',
      ''witnesses'' \<mapsto> JArr [JStr '''']] =
   Inr [Text (''Judicial Bias Incident Documented\<newline>\<newline>'' @
              ''Incident ID: bias_incident_1893456000000\<newline>'' @
              ''Date: 2024-03-05\<newline>'' @
              ''Type: gender_bias\<newline>'' @
              ''Impact: undefined\<newline>'' @
              ''Description: Remark from the bench\<newline>'' @
              ''Witnesses: None specified\<newline>\<newline>'' @
              ''This incident has been added to the judicial bias documentation for Case 1FDV-23-0001009. Justice for Kekoa - every instance of bias is documented and will be used to protect his future.'')] \<and>
   invoke sample_runtime new_year ''document_judicial_bias''
     [''incident_date'' \<mapsto> JStr ''2024-03-05'', ''bias_type'' \<mapsto> JStr ''gender_bias'',
      ''description'' \<mapsto> JStr ''Remark from the bench'',
      ''witnesses'' \<mapsto> JArr [JStr '''']] \<noteq>
   Inr [Text (''Judicial Bias Incident Documented\<newline>\<newline>'' @
              ''Incident ID: bias_incident_1893456000000\<newline>'' @
              ''Date: 2024-03-05\<newline>'' @
              ''Type: gender_bias\<newline>'' @
              ''Impact: undefined\<newline>'' @
              ''Description: Remark from the bench\<newline>'' @
              ''Witnesses: '' @ join_str '', '' [''''] @ ''\<newline>\<newline>'' @
              ''This incident has been added to the judicial bias documentation for Case 1FDV-23-0001009. Justice for Kekoa - every instance of bias is documented and will be used to protect his future.'')]"
  by (simp add: invoke_def dispatch_simps documentJudicialBias_text field_def or_else_def
        array_join_def new_year_def show_int_def show_nat.simps digit_char_def)

text \<open>
  C10 (amended): for every call of the bias-documentation operation, if \<open>witnesses\<close> is
  omitted or is the empty list, the report ends with the line \<open>Witnesses: None specified\<close>
  and the closing paragraph; if \<open>witnesses\<close> is a non-empty list of strings other than
  the list of one empty string, the line shows the names joined by a comma and a space.
\<close>

theorem witnesses_rendering:
  "((args ''witnesses'' = None \<or> args ''witnesses'' = Some (JArr [])) \<longrightarrow>
      (\<exists>pre. invoke rt clk ''document_judicial_bias'' args =
         Inr [Text (pre @ ''\<newline>Witnesses: '' @ ''None specified'' @ ''\<newline>\<newline>'' @
                    ''This incident has been added to the judicial bias documentation for Case 1FDV-23-0001009. Justice for Kekoa - every instance of bias is documented and will be used to protect his future.'')])) \<and>
   (args ''witnesses'' = Some (JArr (map JStr ws)) \<and> ws \<noteq> [] \<and> ws \<noteq> [''''] \<longrightarrow>
      (\<exists>pre. invoke rt clk ''document_judicial_bias'' args =
         Inr [Text (pre @ ''\<newline>Witnesses: '' @ join_str '', '' ws @ ''\<newline>\<newline>'' @
                    ''This incident has been added to the judicial bias documentation for Case 1FDV-23-0001009. Justice for Kekoa - every instance of bias is documented and will be used to protect his future.'')]))"
proof (intro conjI impI)
  assume "args ''witnesses'' = None \<or> args ''witnesses'' = Some (JArr [])"
  then have "witnesses_join (field args ''witnesses'') = Inr JUndefined \<or>
             witnesses_join (field args ''witnesses'') = Inr (JStr [])"
    by (auto simp: field_def array_join_def)
  then obtain joined where j: "witnesses_join (field args ''witnesses'') = Inr joined"
    and o: "or_else joined ''None specified'' = ''None specified''"
    by (auto simp: or_else_def)
  show "\<exists>pre. invoke rt clk ''document_judicial_bias'' args =
         Inr [Text (pre @ ''\<newline>Witnesses: '' @ ''None specified'' @ ''\<newline>\<newline>'' @
                    ''This incident has been added to the judicial bias documentation for Case 1FDV-23-0001009. Justice for Kekoa - every instance of bias is documented and will be used to protect his future.'')]"
    using invoke_bias_joined [OF j, of rt clk] unfolding o by blast
next
  assume a: "args ''witnesses'' = Some (JArr (map JStr ws)) \<and> ws \<noteq> [] \<and> ws \<noteq> ['''']"
  then have j: "witnesses_join (field args ''witnesses'') = Inr (JStr (join_str '', '' ws))"
    by (simp add: field_def array_join_strings)
  have "join_str '', '' ws \<noteq> []"
    using a by (simp add: join_str_empty_iff)
  then have o: "or_else (JStr (join_str '', '' ws)) ''None specified'' = join_str '', '' ws"
    by (simp add: or_else_def)
  show "\<exists>pre. invoke rt clk ''document_judicial_bias'' args =
         Inr [Text (pre @ ''\<newline>Witnesses: '' @ join_str '', '' ws @ ''\<newline>\<newline>'' @
                    ''This incident has been added to the judicial bias documentation for Case 1FDV-23-0001009. Justice for Kekoa - every instance of bias is documented and will be used to protect his future.'')]"
    using invoke_bias_joined [OF j, of rt clk] unfolding o by blast
qed

text \<open>No witnesses given, and two witnesses given.\<close>

theorem witnesses_rendering_witness:
  "(\<exists>pre. invoke sample_runtime new_year ''document_judicial_bias''
       [''incident_date'' \<mapsto> JStr ''2024-03-05'', ''bias_type'' \<mapsto> JStr ''gender_bias'',
        ''description'' \<mapsto> JStr ''Remark from the bench''] =
         Inr [Text (pre @ ''\<newline>Witnesses: None specified\<newline>\<newline>'' @
                    ''This incident has been added to the judicial bias documentation for Case 1FDV-23-0001009. Justice for Kekoa - every instance of bias is documented and will be used to protect his future.'')]) \<and>
   (\<exists>pre. invoke sample_runtime new_year ''document_judicial_bias''
       [''incident_date'' \<mapsto> JStr ''2024-03-05'', ''bias_type'' \<mapsto> JStr ''gender_bias'',
        ''description'' \<mapsto> JStr ''Remark from the bench'',
        ''witnesses'' \<mapsto> JArr [JStr ''A. Smith'', JStr ''B. Jones'']] =
         Inr [Text (pre @ ''\<newline>Witnesses: A. Smith, B. Jones\<newline>\<newline>'' @
                    ''This incident has been added to the judicial bias documentation for Case 1FDV-23-0001009. Justice for Kekoa - every instance of bias is documented and will be used to protect his future.'')])"
  using witnesses_rendering [where rt = sample_runtime and clk = new_year and ws = "[]" and
       args = "[''incident_date'' \<mapsto> JStr ''2024-03-05'', ''bias_type'' \<mapsto> JStr ''gender_bias'',
        ''description'' \<mapsto> JStr ''Remark from the bench'']"]
    witnesses_rendering [where rt = sample_runtime and clk = new_year and
       ws = "[''A. Smith'', ''B. Jones'']" and
       args = "[''incident_date'' \<mapsto> JStr ''2024-03-05'', ''bias_type'' \<mapsto> JStr ''gender_bias'',
        ''description'' \<mapsto> JStr ''Remark from the bench'',
        ''witnesses'' \<mapsto> JArr [JStr ''A. Smith'', JStr ''B. Jones'']]"]
  by simp

end
